theory Spec2Isabelle
  imports Main
begin

section \<open>The relational store\<close>

text \<open>
  The handlers of the profile-edit route and of the new-note route are embedded as pure
  functions over an explicit database, with every thrown response as a value and every
  effect (database call, form read, validation) recorded in a trace of events.

  A \<open>User\<close> row carries the columns the handlers read or write. The \<open>name\<close> column is
  nullable, the image and the password are optional one-to-one relations, of which only
  the image id and the password hash are used.
\<close>

type_synonym user_id = string

record user =
  id_user :: user_id
  name :: "string option"
  username :: string
  email :: string
  image_id :: "string option"
  password_hash :: "string option"

type_synonym db = "user list"

text \<open>
  The handlers call \<open>findUnique\<close> on \<open>id\<close>, on \<open>username\<close> and on \<open>email\<close>, which the ORM
  admits for unique columns only.
\<close>

definition unique_columns :: "db \<Rightarrow> bool" where
  "unique_columns d =
     (distinct (map id_user d) \<and> distinct (map username d) \<and> distinct (map email d))"

definition findUnique_id :: "db \<Rightarrow> user_id \<Rightarrow> user option" where
  "findUnique_id d i = find (\<lambda>u. id_user u = i) d"

definition findUnique_username :: "db \<Rightarrow> string \<Rightarrow> user option" where
  "findUnique_username d n = find (\<lambda>u. username u = n) d"

definition findUnique_email :: "db \<Rightarrow> string \<Rightarrow> user option" where
  "findUnique_email d e = find (\<lambda>u. email u = e) d"

datatype prisma_error = RecordNotFound | UniqueConstraintFailed

text \<open>
  The \<open>data\<close> argument of \<open>prisma.user.update\<close> as the action builds it: \<open>name\<close> may be
  undefined (the column is then left alone), and \<open>password\<close> is either undefined or a nested
  update of the hash. The update throws when no row has the id, when another row holds
  the new username or email, and when the nested update finds no password row; otherwise
  it rewrites the row and returns it.
\<close>

record user_update_data =
  data_name :: "string option"
  data_username :: string
  data_email :: string
  data_password_hash :: "string option"

definition user_update :: "db \<Rightarrow> user_id \<Rightarrow> user_update_data \<Rightarrow> prisma_error + (db \<times> user)" where
  "user_update d i dat =
     (case findUnique_id d i of
        None \<Rightarrow> Inl RecordNotFound
      | Some u \<Rightarrow>
          if list_ex (\<lambda>x. id_user x \<noteq> i \<and>
                 (username x = data_username dat \<or> email x = data_email dat)) d
          then Inl UniqueConstraintFailed
          else if data_password_hash dat \<noteq> None \<and> password_hash u = None
          then Inl RecordNotFound
          else
            let u' = u\<lparr> name := (case data_name dat of None \<Rightarrow> name u | Some n \<Rightarrow> Some n),
                         username := data_username dat,
                         email := data_email dat,
                         password_hash := (case data_password_hash dat of
                                             None \<Rightarrow> password_hash u
                                           | Some h \<Rightarrow> Some h) \<rparr>
            in Inr (map (\<lambda>x. if id_user x = i then u' else x) d, u'))"

section \<open>Requests, responses and effects\<close>

text \<open>
  A request carries the user id stored in its session cookie, if any, and the form it
  posts. Reading the form and decoding it into an intent (\<open>submit\<close> unless a button set
  another one) and a payload object is the form library's work; the request record holds
  the decoded intent and payload, each field a single string.
\<close>

type_synonym payload = "(string \<times> string) list"

record request =
  session :: "user_id option"
  intent :: string
  payload :: payload

datatype event =
    ReadFormData
  | ParseSubmission
  | FindUniqueId user_id
  | FindUniqueUsername string
  | FindUniqueEmail string
  | VerifyUserPassword user_id string
  | GetPasswordHash string
  | UserUpdate user_id

datatype message = Required | SchemaMessage | InvalidUnion | Custom string

type_synonym issue = "string \<times> message"

record profile_form =
  form_name :: "string option"
  form_username :: string
  form_currentPassword :: "string option"
  form_newPassword :: "string option"
  form_email :: string

record submission =
  sub_intent :: string
  sub_payload :: payload
  sub_error :: "issue list"
  sub_value :: "profile_form option"

record user_select =
  sel_id :: user_id
  sel_name :: "string option"
  sel_username :: string
  sel_email :: string
  sel_image_id :: "string option"

datatype body =
    LoaderData user_select
  | ActionData string submission
  | EmptyObject

datatype response = Json nat body | Redirect nat string

datatype thrown = LoginRedirect | Logout string | PrismaError prisma_error

text \<open>
  Modelled from the spec: \<open>requireUserId\<close> of \<open>~/utils/auth.server.ts\<close>, which is not
  among the sources. The routes "require an authenticated session cookie" and
  "authentication failure triggers a session logout/redirect": with a session the helper
  returns its user id, without one it throws a redirect to the login page.
\<close>

definition requireUserId :: "request \<Rightarrow> thrown + user_id" where
  "requireUserId req = (case session req of None \<Rightarrow> Inl LoginRedirect | Some i \<Rightarrow> Inr i)"

section \<open>The profile form schema\<close>

text \<open>
  The format schemas of \<open>~/utils/user-validation.ts\<close>, the password comparison behind
  \<open>verifyUserPassword\<close> and \<open>getPasswordHash\<close> are parameters of the development; the
  spec calls the former "required formats", so each is a predicate on strings.
\<close>

record env =
  nameSchema :: "string \<Rightarrow> bool"
  usernameSchema :: "string \<Rightarrow> bool"
  emailSchema :: "string \<Rightarrow> bool"
  passwordSchema :: "string \<Rightarrow> bool"
  compare_hash :: "string \<Rightarrow> string \<Rightarrow> bool"
  getPasswordHash :: "string \<Rightarrow> string"

text \<open>
  The validation library parses a value to a status and a list of issues. A string schema
  aborts on a missing value and is merely dirty when the string fails one of its checks;
  an object is aborted when one of its fields is, dirty when one is dirty; a union takes
  the first valid alternative, else the first dirty one; \<open>optional\<close> accepts a missing
  value. A refinement runs on every result that is not aborted.

  The model hands the strings of the payload to the schema as they were submitted and
  reads each field as one string. A form library that drops empty fields before the
  schema, or that collects a field posted twice into an array, differs from it on
  exactly those payloads. The theorems on lookups and on error messages are therefore
  stated for payloads whose fields are posted once and whose username and email are
  non-empty, on which the readings agree.
\<close>

datatype status = Valid | Dirty | Aborted

type_synonym schema = "string \<Rightarrow> string option \<Rightarrow> status \<times> issue list"

fun merge_status :: "status \<Rightarrow> status \<Rightarrow> status" where
  "merge_status Aborted _ = Aborted"
| "merge_status _ Aborted = Aborted"
| "merge_status Dirty _ = Dirty"
| "merge_status _ Dirty = Dirty"
| "merge_status Valid Valid = Valid"

definition string_schema :: "(string \<Rightarrow> bool) \<Rightarrow> schema" where
  "string_schema checks path v =
     (case v of
        None \<Rightarrow> (Aborted, [(path, Required)])
      | Some s \<Rightarrow> if checks s then (Valid, []) else (Dirty, [(path, SchemaMessage)]))"

definition min_max :: "nat \<Rightarrow> nat \<Rightarrow> string \<Rightarrow> bool" where
  "min_max lo hi s = (lo \<le> length s \<and> length s \<le> hi)"

definition union_schema :: "schema \<Rightarrow> schema \<Rightarrow> schema" where
  "union_schema a b path v =
     (let ra = a path v; rb = b path v
      in if fst ra = Valid then ra
         else if fst rb = Valid then rb
         else if fst ra = Dirty then ra
         else if fst rb = Dirty then rb
         else (Aborted, [(path, InvalidUnion)]))"

definition optional :: "schema \<Rightarrow> schema" where
  "optional a path v = (case v of None \<Rightarrow> (Valid, []) | Some s \<Rightarrow> a path (Some s))"

definition password_or_empty :: "env \<Rightarrow> schema" where
  "password_or_empty en =
     optional (union_schema (string_schema (passwordSchema en)) (string_schema (min_max 0 0)))"

definition ProfileFormSchema :: "env \<Rightarrow> payload \<Rightarrow> status \<times> issue list \<times> profile_form option" where
  "ProfileFormSchema en p =
     (let rn = optional (string_schema (nameSchema en)) ''name'' (map_of p ''name'');
          ru = string_schema (usernameSchema en) ''username'' (map_of p ''username'');
          rc = password_or_empty en ''currentPassword'' (map_of p ''currentPassword'');
          rp = password_or_empty en ''newPassword'' (map_of p ''newPassword'');
          re = string_schema (emailSchema en) ''email'' (map_of p ''email'');
          st = merge_status (fst rn) (merge_status (fst ru)
                 (merge_status (fst rc) (merge_status (fst rp) (fst re))));
          issues = snd rn @ snd ru @ snd rc @ snd rp @ snd re
      in (st, issues,
          case (map_of p ''username'', map_of p ''email'') of
            (Some u, Some e) \<Rightarrow>
              Some \<lparr> form_name = map_of p ''name'', form_username = u,
                     form_currentPassword = map_of p ''currentPassword'',
                     form_newPassword = map_of p ''newPassword'', form_email = e \<rparr>
          | _ \<Rightarrow> None))"

section \<open>Validation with the asynchronous refinement\<close>

definition truthy :: "string option \<Rightarrow> bool" where
  "truthy v = (case v of None \<Rightarrow> False | Some s \<Rightarrow> s \<noteq> [])"

text \<open>
  Modelled from the spec: \<open>verifyUserPassword\<close> of \<open>~/utils/auth.server.ts\<close>, which is
  not among the sources: the "password-verification lookup" reads the user's stored hash
  and compares the password with it, answering with the user's id or with nothing.
\<close>

definition verifyUserPassword :: "env \<Rightarrow> db \<Rightarrow> user_id \<Rightarrow> string \<Rightarrow> user_id option" where
  "verifyUserPassword en d i pw =
     (case findUnique_id d i of
        None \<Rightarrow> None
      | Some u \<Rightarrow>
          (case password_hash u of
             None \<Rightarrow> None
           | Some h \<Rightarrow> if compare_hash en pw h then Some (id_user u) else None))"

definition taken_by_other :: "user option \<Rightarrow> user_id \<Rightarrow> bool" where
  "taken_by_other existing userId =
     (case existing of None \<Rightarrow> False | Some u \<Rightarrow> id_user u \<noteq> userId)"

definition superRefine :: "env \<Rightarrow> db \<Rightarrow> user_id \<Rightarrow> profile_form \<Rightarrow> issue list \<times> event list" where
  "superRefine en d userId v =
     (let existingUsername = findUnique_username d (form_username v);
          i1 = (if taken_by_other existingUsername userId
                then [(''username'', Custom ''A user already exists with this username'')]
                else []);
          existingEmail = findUnique_email d (form_email v);
          i2 = (if taken_by_other existingEmail userId
                then [(''email'', Custom ''A user already exists with this email'')]
                else []);
          i3 = (if truthy (form_newPassword v) \<and> \<not> truthy (form_currentPassword v)
                then [(''newPassword'',
                       Custom ''Must provide current password to change password.'')]
                else []);
          r4 = (case form_currentPassword v of
                  None \<Rightarrow> ([], [])
                | Some cp \<Rightarrow>
                    if cp \<noteq> [] \<and> truthy (form_newPassword v)
                    then (case verifyUserPassword en d userId cp of
                            None \<Rightarrow> [(''currentPassword'', Custom ''Incorrect password.'')]
                          | Some _ \<Rightarrow> [],
                          [VerifyUserPassword userId cp])
                    else ([], []))
      in (i1 @ i2 @ i3 @ fst r4,
          [FindUniqueUsername (form_username v), FindUniqueEmail (form_email v)] @ snd r4))"

text \<open>
  \<open>parse\<close> with the refined schema: the submission keeps the intent and the payload,
  and holds either the parsed value (no issue at all) or the issues as field errors.
  The schema is run whatever the intent is, which is why the action also clears the
  passwords of the value for an intent other than \<open>submit\<close>.
\<close>

definition parse :: "env \<Rightarrow> db \<Rightarrow> user_id \<Rightarrow> string \<Rightarrow> payload \<Rightarrow> submission \<times> event list" where
  "parse en d userId i p =
     (case ProfileFormSchema en p of
        (st, issues, None) \<Rightarrow>
          (\<lparr> sub_intent = i, sub_payload = p, sub_error = issues, sub_value = None \<rparr>, [])
      | (st, issues, Some v) \<Rightarrow>
          if st = Aborted
          then (\<lparr> sub_intent = i, sub_payload = p, sub_error = issues, sub_value = None \<rparr>, [])
          else
            let r = superRefine en d userId v;
                allIssues = issues @ fst r
            in (\<lparr> sub_intent = i, sub_payload = p, sub_error = allIssues,
                  sub_value = (if allIssues = [] then Some v else None) \<rparr>, snd r))"

section \<open>The handlers\<close>

definition delete_key :: "string \<Rightarrow> payload \<Rightarrow> payload" where
  "delete_key k p = filter (\<lambda>e. fst e \<noteq> k) p"

definition delete_passwords :: "profile_form \<Rightarrow> profile_form" where
  "delete_passwords v = v\<lparr> form_currentPassword := None, form_newPassword := None \<rparr>"

definition loader :: "db \<Rightarrow> request \<Rightarrow> (thrown + response) \<times> event list" where
  "loader d req =
     (case requireUserId req of
        Inl t \<Rightarrow> (Inl t, [])
      | Inr userId \<Rightarrow>
          (case findUnique_id d userId of
             None \<Rightarrow> (Inl (Logout ''/''), [FindUniqueId userId])
           | Some u \<Rightarrow>
               (Inr (Json 200 (LoaderData
                  \<lparr> sel_id = id_user u, sel_name = name u, sel_username = username u,
                    sel_email = email u, sel_image_id = image_id u \<rparr>)),
                [FindUniqueId userId])))"

definition action :: "env \<Rightarrow> db \<Rightarrow> request \<Rightarrow> (thrown + response) \<times> db \<times> event list" where
  "action en d req =
     (case requireUserId req of
        Inl t \<Rightarrow> (Inl t, d, [])
      | Inr userId \<Rightarrow>
          let r = parse en d userId (intent req) (payload req);
              tr = [ReadFormData, ParseSubmission] @ snd r;
              sub = (fst r)\<lparr> sub_payload :=
                       delete_key ''newPassword''
                         (delete_key ''currentPassword'' (sub_payload (fst r))) \<rparr>
          in if sub_intent sub \<noteq> ''submit''
             then (Inr (Json 200 (ActionData ''idle''
                          (sub\<lparr> sub_value := map_option delete_passwords (sub_value sub) \<rparr>))),
                   d, tr)
             else
               (case sub_value sub of
                  None \<Rightarrow> (Inr (Json 400 (ActionData ''error'' sub)), d, tr)
                | Some dat \<Rightarrow>
                    let hashed = (case form_newPassword dat of
                                    None \<Rightarrow> None
                                  | Some np \<Rightarrow>
                                      if np \<noteq> [] then Some (getPasswordHash en np) else None);
                        tr' = tr @ (case form_newPassword dat of
                                      None \<Rightarrow> []
                                    | Some np \<Rightarrow> if np \<noteq> [] then [GetPasswordHash np] else [])
                                 @ [UserUpdate userId]
                    in (case user_update d userId
                               \<lparr> data_name = form_name dat, data_username = form_username dat,
                                 data_email = form_email dat, data_password_hash = hashed \<rparr> of
                          Inl e \<Rightarrow> (Inl (PrismaError e), d, tr')
                        | Inr (d', updatedUser) \<Rightarrow>
                            (Inr (Redirect 302 (''/users/'' @ username updatedUser)), d', tr'))))"

definition notes_new_loader :: "request \<Rightarrow> (thrown + response) \<times> event list" where
  "notes_new_loader req =
     (case requireUserId req of
        Inl t \<Rightarrow> (Inl t, [])
      | Inr userId \<Rightarrow> (Inr (Json 200 EmptyObject), []))"

text \<open>
  The row that a successful update leaves for the user: the name only when one was
  submitted, the username and the email always, the hash only for a non-empty new
  password.
\<close>

definition updated_user :: "env \<Rightarrow> user \<Rightarrow> profile_form \<Rightarrow> user" where
  "updated_user en u v =
     u\<lparr> name := (case form_name v of None \<Rightarrow> name u | Some n \<Rightarrow> Some n),
        username := form_username v,
        email := form_email v,
        password_hash := (case form_newPassword v of
                            None \<Rightarrow> password_hash u
                          | Some np \<Rightarrow> if np \<noteq> [] then Some (getPasswordHash en np)
                                       else password_hash u) \<rparr>"

text \<open>The kinds of events counted in a trace.\<close>

definition is_uniqueness_lookup :: "event \<Rightarrow> bool" where
  "is_uniqueness_lookup ev =
     (case ev of FindUniqueUsername _ \<Rightarrow> True | FindUniqueEmail _ \<Rightarrow> True | _ \<Rightarrow> False)"

definition is_verification :: "event \<Rightarrow> bool" where
  "is_verification ev = (case ev of VerifyUserPassword _ _ \<Rightarrow> True | _ \<Rightarrow> False)"

definition is_update :: "event \<Rightarrow> bool" where
  "is_update ev = (case ev of UserUpdate _ \<Rightarrow> True | _ \<Rightarrow> False)"

section \<open>A sample store and sample parameters\<close>

text \<open>
  Concrete parameters and a two-user store, on which the theorems below are instantiated.
\<close>

definition sample_env :: env where
  "sample_env =
     \<lparr> nameSchema = min_max 3 40, usernameSchema = min_max 3 20,
       emailSchema = (\<lambda>s. CHR ''@'' \<in> set s), passwordSchema = min_max 6 100,
       compare_hash = (\<lambda>pw h. h = ''#'' @ pw), getPasswordHash = (\<lambda>pw. ''#'' @ pw) \<rparr>"

definition kody :: user where
  "kody = \<lparr> id_user = ''u1'', name = Some ''Kody'', username = ''kody'',
            email = ''kody@kcd.dev'', image_id = None,
            password_hash = Some ''#kodylovesyou'' \<rparr>"

definition hannah :: user where
  "hannah = \<lparr> id_user = ''u2'', name = None, username = ''hannah'',
              email = ''hannah@kcd.dev'', image_id = Some ''img2'',
              password_hash = Some ''#hannah123'' \<rparr>"

definition sample_db :: db where
  "sample_db = [kody, hannah]"

lemmas sample_defs = sample_env_def sample_db_def kody_def hannah_def

section \<open>Facts about the schema and the validation\<close>

lemma requireUserId_Some: "session req = Some i \<Longrightarrow> requireUserId req = Inr i"
  by (simp add: requireUserId_def)

lemma requireUserId_None: "session req = None \<Longrightarrow> requireUserId req = Inl LoginRedirect"
  by (simp add: requireUserId_def)

lemma password_or_empty_status:
  "fst (password_or_empty en path v) =
     (case v of None \<Rightarrow> Valid
      | Some s \<Rightarrow> if passwordSchema en s \<or> s = [] then Valid else Dirty)"
  by (simp add: password_or_empty_def optional_def union_schema_def string_schema_def
      min_max_def Let_def split: option.splits)

lemma password_or_empty_not_aborted: "fst (password_or_empty en path v) \<noteq> Aborted"
  by (simp add: password_or_empty_status split: option.splits)

lemma optional_string_not_aborted: "fst (optional (string_schema c) path v) \<noteq> Aborted"
  by (simp add: optional_def string_schema_def split: option.splits)

lemma merge_status_Aborted:
  "merge_status a b = Aborted \<longleftrightarrow> a = Aborted \<or> b = Aborted"
  by (cases a; cases b) simp_all

lemma merge_status_Valid:
  "merge_status a b = Valid \<longleftrightarrow> a = Valid \<and> b = Valid"
  by (cases a; cases b) simp_all

lemma ProfileFormSchema_aborted:
  "fst (ProfileFormSchema en p) = Aborted \<longleftrightarrow>
     map_of p ''username'' = None \<or> map_of p ''email'' = None"
  by (auto simp: ProfileFormSchema_def Let_def merge_status_Aborted
      password_or_empty_not_aborted optional_string_not_aborted string_schema_def
      split: option.splits if_splits)

lemma ProfileFormSchema_value:
  "snd (snd (ProfileFormSchema en p)) =
     (case (map_of p ''username'', map_of p ''email'') of
        (Some u, Some e) \<Rightarrow>
          Some \<lparr> form_name = map_of p ''name'', form_username = u,
                 form_currentPassword = map_of p ''currentPassword'',
                 form_newPassword = map_of p ''newPassword'', form_email = e \<rparr>
      | _ \<Rightarrow> None)"
  by (simp add: ProfileFormSchema_def Let_def)

text \<open>Without a username or an email the object is aborted and the refinement is skipped.\<close>

lemma parse_absent:
  assumes "map_of p ''username'' = None \<or> map_of p ''email'' = None"
  shows "parse en d i it p =
           (\<lparr> sub_intent = it, sub_payload = p,
              sub_error = fst (snd (ProfileFormSchema en p)), sub_value = None \<rparr>, [])"
proof -
  obtain st iss v where r: "ProfileFormSchema en p = (st, iss, v)"
    by (cases "ProfileFormSchema en p") auto
  have "st = Aborted"
    using ProfileFormSchema_aborted [of en p] assms r by simp
  then show ?thesis
    using r by (simp add: parse_def split: option.splits)
qed

text \<open>With both, the refinement runs on the submitted strings, whatever their format.\<close>

lemma parse_present:
  assumes "map_of p ''username'' = Some n" and "map_of p ''email'' = Some e"
  shows "parse en d i it p =
           (let v = \<lparr> form_name = map_of p ''name'', form_username = n,
                      form_currentPassword = map_of p ''currentPassword'',
                      form_newPassword = map_of p ''newPassword'', form_email = e \<rparr>;
                r = superRefine en d i v;
                allIssues = fst (snd (ProfileFormSchema en p)) @ fst r
            in (\<lparr> sub_intent = it, sub_payload = p, sub_error = allIssues,
                  sub_value = (if allIssues = [] then Some v else None) \<rparr>, snd r))"
proof -
  obtain st iss v where r: "ProfileFormSchema en p = (st, iss, v)"
    by (cases "ProfileFormSchema en p") auto
  have na: "st \<noteq> Aborted"
    using ProfileFormSchema_aborted [of en p] assms r by simp
  have v: "v = Some \<lparr> form_name = map_of p ''name'', form_username = n,
                      form_currentPassword = map_of p ''currentPassword'',
                      form_newPassword = map_of p ''newPassword'', form_email = e \<rparr>"
    using ProfileFormSchema_value [of en p] assms r by simp
  show ?thesis
    using r na v by (simp add: parse_def Let_def)
qed

lemma parse_intent: "sub_intent (fst (parse en d i it p)) = it"
  by (simp add: parse_def Let_def split: prod.splits option.splits)

lemma parse_payload: "sub_payload (fst (parse en d i it p)) = p"
  by (simp add: parse_def Let_def split: prod.splits option.splits)

lemma delete_key_keys: "fst ` set (delete_key k p) = fst ` set p - {k}"
  by (auto simp: delete_key_def)

lemmas model_defs = action_def requireUserId_def parse_def ProfileFormSchema_def
  password_or_empty_def optional_def union_schema_def string_schema_def min_max_def
  superRefine_def taken_by_other_def truthy_def verifyUserPassword_def
  findUnique_id_def findUnique_username_def findUnique_email_def user_update_def
  delete_key_def delete_passwords_def

section \<open>Authentication comes first\<close>

text \<open>
  Claim C5. The profile-edit loader, the profile-edit action and the new-note loader call
  \<open>requireUserId\<close> before anything else: on a request without an authenticated session
  each of them throws the redirect to the login page, the trace of effects is empty (no
  database read, no form read, no validation, no update) and the store is unchanged.
\<close>

theorem unauthenticated_request_does_nothing:
  assumes "session req = None"
  shows "action en d req = (Inl LoginRedirect, d, []) \<and>
         loader d req = (Inl LoginRedirect, []) \<and>
         notes_new_loader req = (Inl LoginRedirect, [])"
  using assms by (simp add: action_def loader_def notes_new_loader_def requireUserId_def)

theorem unauthenticated_request_does_nothing_witness:
  "session \<lparr> session = None, intent = ''submit'',
             payload = [(''username'', ''kody''), (''email'', ''kody@kcd.dev'')] \<rparr> = None \<and>
   action sample_env sample_db
     \<lparr> session = None, intent = ''submit'',
       payload = [(''username'', ''kody''), (''email'', ''kody@kcd.dev'')] \<rparr>
     = (Inl LoginRedirect, sample_db, []) \<and>
   loader sample_db
     \<lparr> session = None, intent = ''submit'',
       payload = [(''username'', ''kody''), (''email'', ''kody@kcd.dev'')] \<rparr>
     = (Inl LoginRedirect, []) \<and>
   notes_new_loader
     \<lparr> session = None, intent = ''submit'',
       payload = [(''username'', ''kody''), (''email'', ''kody@kcd.dev'')] \<rparr>
     = (Inl LoginRedirect, [])"
  using unauthenticated_request_does_nothing
    [of "\<lparr> session = None, intent = ''submit'',
           payload = [(''username'', ''kody''), (''email'', ''kody@kcd.dev'')] \<rparr>"
        sample_env sample_db]
  by simp

section \<open>The loader and a session without a user\<close>

text \<open>
  Claim C6. When the authenticated user id of the profile-edit loader matches no User
  record, the loader throws the session logout that redirects to \<open>/\<close>; it returns no
  user data, and its only effect is the one lookup by id.
\<close>

theorem loader_logs_out_unknown_user:
  assumes "session req = Some i" and "i \<notin> set (map id_user d)"
  shows "loader d req = (Inl (Logout ''/''), [FindUniqueId i])"
proof -
  have "findUnique_id d i = None"
    using assms(2) by (auto simp: findUnique_id_def find_None_iff)
  then show ?thesis
    using assms(1) by (simp add: loader_def requireUserId_def)
qed

theorem loader_logs_out_unknown_user_witness:
  "session \<lparr> session = Some ''u9'', intent = ''submit'', payload = [] \<rparr> = Some ''u9'' \<and>
   ''u9'' \<notin> set (map id_user sample_db) \<and>
   loader sample_db \<lparr> session = Some ''u9'', intent = ''submit'', payload = [] \<rparr>
     = (Inl (Logout ''/''), [FindUniqueId ''u9''])"
  using loader_logs_out_unknown_user
    [of "\<lparr> session = Some ''u9'', intent = ''submit'', payload = [] \<rparr>" "''u9''" sample_db]
  by (simp add: sample_defs)

section \<open>Passwords are not echoed\<close>

text \<open>
  Claim C8. Every JSON response the profile-edit action returns carries a submission
  whose payload is the request's payload with the \<open>currentPassword\<close> and \<open>newPassword\<close>
  entries deleted, and whose parsed value, when there is one, has neither of the two
  fields: no JSON response echoes the submitted passwords.
\<close>

theorem action_json_has_no_passwords:
  assumes "fst (action en d req) = Inr (Json st b)"
  shows "\<exists>s sub. b = ActionData s sub \<and>
           sub_payload sub =
             delete_key ''newPassword'' (delete_key ''currentPassword'' (payload req)) \<and>
           ''currentPassword'' \<notin> fst ` set (sub_payload sub) \<and>
           ''newPassword'' \<notin> fst ` set (sub_payload sub) \<and>
           (case sub_value sub of
              None \<Rightarrow> True
            | Some v \<Rightarrow> form_currentPassword v = None \<and> form_newPassword v = None)"
proof (cases "session req")
  case None
  then show ?thesis
    using assms by (simp add: action_def requireUserId_def)
next
  case (Some i)
  let ?r = "parse en d i (intent req) (payload req)"
  let ?sub = "(fst ?r)\<lparr> sub_payload :=
                 delete_key ''newPassword'' (delete_key ''currentPassword'' (payload req)) \<rparr>"
  have keys: "''currentPassword'' \<notin> fst ` set (sub_payload ?sub)"
             "''newPassword'' \<notin> fst ` set (sub_payload ?sub)"
    by (simp_all add: delete_key_keys)
  show ?thesis
  proof (cases "intent req = ''submit''")
    case False
    then have "b = ActionData ''idle''
                 (?sub\<lparr> sub_value := map_option delete_passwords (sub_value ?sub) \<rparr>)"
      using assms Some
      by (simp add: action_def requireUserId_def Let_def parse_intent parse_payload)
    then show ?thesis
      using keys by (auto simp: delete_passwords_def split: option.splits)
  next
    case True
    show ?thesis
    proof (cases "sub_value (fst ?r)")
      case None
      then have "b = ActionData ''error'' ?sub"
        using assms Some True
        by (simp add: action_def requireUserId_def Let_def parse_intent parse_payload)
      then show ?thesis
        using keys None by auto
    next
      case (Some dat)
      then have False
        using assms \<open>session req = Some i\<close> True
        by (simp add: action_def requireUserId_def Let_def parse_intent parse_payload
            split: sum.splits prod.splits)
      then show ?thesis ..
    qed
  qed
qed

theorem action_json_has_no_passwords_witness:
  "fst (action sample_env sample_db
          \<lparr> session = Some ''u1'', intent = ''validate/username'',
            payload = [(''username'', ''kody''), (''email'', ''k@x''),
                       (''currentPassword'', ''kodylovesyou''),
                       (''newPassword'', ''abcdefg'')] \<rparr>)
     = Inr (Json 200 (ActionData ''idle''
          \<lparr> sub_intent = ''validate/username'',
            sub_payload = [(''username'', ''kody''), (''email'', ''k@x'')],
            sub_error = [],
            sub_value = Some \<lparr> form_name = None, form_username = ''kody'',
                               form_currentPassword = None, form_newPassword = None,
                               form_email = ''k@x'' \<rparr> \<rparr>)) \<and>
   (\<exists>s sub. ActionData ''idle''
          \<lparr> sub_intent = ''validate/username'',
            sub_payload = [(''username'', ''kody''), (''email'', ''k@x'')],
            sub_error = [],
            sub_value = Some \<lparr> form_name = None, form_username = ''kody'',
                               form_currentPassword = None, form_newPassword = None,
                               form_email = ''k@x'' \<rparr> \<rparr> = ActionData s sub \<and>
      ''currentPassword'' \<notin> fst ` set (sub_payload sub) \<and>
      ''newPassword'' \<notin> fst ` set (sub_payload sub) \<and>
      (case sub_value sub of
         None \<Rightarrow> True
       | Some v \<Rightarrow> form_currentPassword v = None \<and> form_newPassword v = None))"
proof -
  have h: "fst (action sample_env sample_db
          \<lparr> session = Some ''u1'', intent = ''validate/username'',
            payload = [(''username'', ''kody''), (''email'', ''k@x''),
                       (''currentPassword'', ''kodylovesyou''),
                       (''newPassword'', ''abcdefg'')] \<rparr>)
     = Inr (Json 200 (ActionData ''idle''
          \<lparr> sub_intent = ''validate/username'',
            sub_payload = [(''username'', ''kody''), (''email'', ''k@x'')],
            sub_error = [],
            sub_value = Some \<lparr> form_name = None, form_username = ''kody'',
                               form_currentPassword = None, form_newPassword = None,
                               form_email = ''k@x'' \<rparr> \<rparr>))"
    by (simp add: model_defs sample_defs Let_def)
  from action_json_has_no_passwords [OF h] h show ?thesis
    by blast
qed

section \<open>Statuses and issues of the schema\<close>

lemma string_schema_status:
  "fst (string_schema c path v) =
     (case v of None \<Rightarrow> Aborted | Some s \<Rightarrow> if c s then Valid else Dirty)"
  by (simp add: string_schema_def split: option.splits)

lemma optional_string_status:
  "fst (optional (string_schema c) path v) =
     (case v of None \<Rightarrow> Valid | Some s \<Rightarrow> if c s then Valid else Dirty)"
  by (simp add: optional_def string_schema_def split: option.splits)

lemma string_schema_issues:
  "snd (string_schema c path v) = [] \<longleftrightarrow> fst (string_schema c path v) = Valid"
  by (simp add: string_schema_def split: option.splits)

lemma optional_string_issues:
  "snd (optional (string_schema c) path v) = [] \<longleftrightarrow>
     fst (optional (string_schema c) path v) = Valid"
  by (simp add: optional_def string_schema_def split: option.splits)

lemma password_or_empty_issues:
  "snd (password_or_empty en path v) = [] \<longleftrightarrow> fst (password_or_empty en path v) = Valid"
  by (simp add: password_or_empty_def optional_def union_schema_def string_schema_def
      min_max_def Let_def split: option.splits)

lemma ProfileFormSchema_status:
  "fst (ProfileFormSchema en p) = Valid \<longleftrightarrow>
     (case map_of p ''name'' of None \<Rightarrow> True | Some s \<Rightarrow> nameSchema en s) \<and>
     (case map_of p ''username'' of None \<Rightarrow> False | Some s \<Rightarrow> usernameSchema en s) \<and>
     (case map_of p ''currentPassword'' of
        None \<Rightarrow> True | Some s \<Rightarrow> passwordSchema en s \<or> s = []) \<and>
     (case map_of p ''newPassword'' of
        None \<Rightarrow> True | Some s \<Rightarrow> passwordSchema en s \<or> s = []) \<and>
     (case map_of p ''email'' of None \<Rightarrow> False | Some s \<Rightarrow> emailSchema en s)"
  by (simp add: ProfileFormSchema_def Let_def merge_status_Valid password_or_empty_status
      string_schema_status optional_string_status split: option.splits)

lemma ProfileFormSchema_issues:
  "fst (snd (ProfileFormSchema en p)) = [] \<longleftrightarrow> fst (ProfileFormSchema en p) = Valid"
  by (simp add: ProfileFormSchema_def Let_def merge_status_Valid password_or_empty_issues
      string_schema_issues optional_string_issues)

lemma superRefine_issues_Nil:
  "fst (superRefine en d i v) = [] \<longleftrightarrow>
     \<not> taken_by_other (findUnique_username d (form_username v)) i \<and>
     \<not> taken_by_other (findUnique_email d (form_email v)) i \<and>
     \<not> (truthy (form_newPassword v) \<and> \<not> truthy (form_currentPassword v)) \<and>
     (case form_currentPassword v of
        None \<Rightarrow> True
      | Some cp \<Rightarrow> cp \<noteq> [] \<and> truthy (form_newPassword v) \<longrightarrow>
                   verifyUserPassword en d i cp \<noteq> None)"
  by (auto simp: superRefine_def Let_def split: option.splits)

section \<open>Required and optional fields\<close>

text \<open>
  Claim C7. The profile schema accepts a payload exactly when \<open>name\<close> is missing or
  satisfies the name schema, \<open>username\<close> and \<open>email\<close> are present and satisfy their format
  schemas, and each of \<open>currentPassword\<close> and \<open>newPassword\<close> is missing, satisfies the
  password schema or is the empty string. So a submission without \<open>username\<close> or without
  \<open>email\<close> always fails validation, and a submission that leaves out \<open>name\<close> (and the
  passwords) succeeds whenever its username and email have the right format and belong
  to no other user.
\<close>

theorem profile_schema_required_and_optional_fields:
  "(fst (ProfileFormSchema en p) = Valid \<longleftrightarrow>
      (case map_of p ''name'' of None \<Rightarrow> True | Some s \<Rightarrow> nameSchema en s) \<and>
      (case map_of p ''username'' of None \<Rightarrow> False | Some s \<Rightarrow> usernameSchema en s) \<and>
      (case map_of p ''currentPassword'' of
         None \<Rightarrow> True | Some s \<Rightarrow> passwordSchema en s \<or> s = []) \<and>
      (case map_of p ''newPassword'' of
         None \<Rightarrow> True | Some s \<Rightarrow> passwordSchema en s \<or> s = []) \<and>
      (case map_of p ''email'' of None \<Rightarrow> False | Some s \<Rightarrow> emailSchema en s)) \<and>
   (map_of p ''username'' = None \<or> map_of p ''email'' = None \<longrightarrow>
      fst (ProfileFormSchema en p) = Aborted \<and>
      fst (snd (ProfileFormSchema en p)) \<noteq> [] \<and>
      sub_value (fst (parse en d i it p)) = None) \<and>
   (usernameSchema en n \<and> emailSchema en e \<and>
    \<not> taken_by_other (findUnique_username d n) i \<and>
    \<not> taken_by_other (findUnique_email d e) i \<longrightarrow>
      ProfileFormSchema en [(''username'', n), (''email'', e)] =
        (Valid, [], Some \<lparr> form_name = None, form_username = n,
                            form_currentPassword = None, form_newPassword = None,
                            form_email = e \<rparr>) \<and>
      sub_value (fst (parse en d i it [(''username'', n), (''email'', e)])) =
        Some \<lparr> form_name = None, form_username = n, form_currentPassword = None,
               form_newPassword = None, form_email = e \<rparr>)"
proof (intro conjI impI)
  show "fst (ProfileFormSchema en p) = Valid \<longleftrightarrow>
      (case map_of p ''name'' of None \<Rightarrow> True | Some s \<Rightarrow> nameSchema en s) \<and>
      (case map_of p ''username'' of None \<Rightarrow> False | Some s \<Rightarrow> usernameSchema en s) \<and>
      (case map_of p ''currentPassword'' of
         None \<Rightarrow> True | Some s \<Rightarrow> passwordSchema en s \<or> s = []) \<and>
      (case map_of p ''newPassword'' of
         None \<Rightarrow> True | Some s \<Rightarrow> passwordSchema en s \<or> s = []) \<and>
      (case map_of p ''email'' of None \<Rightarrow> False | Some s \<Rightarrow> emailSchema en s)"
    by (rule ProfileFormSchema_status)
next
  assume a: "map_of p ''username'' = None \<or> map_of p ''email'' = None"
  then show ab: "fst (ProfileFormSchema en p) = Aborted"
    by (simp add: ProfileFormSchema_aborted)
  then show "fst (snd (ProfileFormSchema en p)) \<noteq> []"
    by (simp add: ProfileFormSchema_issues)
  show "sub_value (fst (parse en d i it p)) = None"
    using a by (simp add: parse_absent)
next
  assume ok: "usernameSchema en n \<and> emailSchema en e \<and>
    \<not> taken_by_other (findUnique_username d n) i \<and>
    \<not> taken_by_other (findUnique_email d e) i"
  then show s: "ProfileFormSchema en [(''username'', n), (''email'', e)] =
        (Valid, [], Some \<lparr> form_name = None, form_username = n,
                            form_currentPassword = None, form_newPassword = None,
                            form_email = e \<rparr>)"
    by (simp add: ProfileFormSchema_def password_or_empty_def optional_def
        string_schema_def Let_def)
  show "sub_value (fst (parse en d i it [(''username'', n), (''email'', e)])) =
        Some \<lparr> form_name = None, form_username = n, form_currentPassword = None,
               form_newPassword = None, form_email = e \<rparr>"
    using ok s by (simp add: parse_def superRefine_def truthy_def Let_def)
qed

theorem profile_schema_required_and_optional_fields_witness:
  "(map_of [(''name'', ''Kody'')] ''username'' = None \<or>
    map_of [(''name'', ''Kody'')] ''email'' = None) \<and>
   fst (ProfileFormSchema sample_env [(''name'', ''Kody'')]) = Aborted \<and>
   sub_value (fst (parse sample_env sample_db ''u1'' ''submit'' [(''name'', ''Kody'')])) = None \<and>
   usernameSchema sample_env ''kody'' \<and> emailSchema sample_env ''kody@kcd.dev'' \<and>
   \<not> taken_by_other (findUnique_username sample_db ''kody'') ''u1'' \<and>
   \<not> taken_by_other (findUnique_email sample_db ''kody@kcd.dev'') ''u1'' \<and>
   fst (ProfileFormSchema sample_env [(''username'', ''kody''), (''email'', ''kody@kcd.dev'')])
     = Valid \<and>
   sub_value (fst (parse sample_env sample_db ''u1'' ''submit''
                     [(''username'', ''kody''), (''email'', ''kody@kcd.dev'')])) =
     Some \<lparr> form_name = None, form_username = ''kody'', form_currentPassword = None,
            form_newPassword = None, form_email = ''kody@kcd.dev'' \<rparr>"
proof -
  have h: "usernameSchema sample_env ''kody'' \<and> emailSchema sample_env ''kody@kcd.dev'' \<and>
      \<not> taken_by_other (findUnique_username sample_db ''kody'') ''u1'' \<and>
      \<not> taken_by_other (findUnique_email sample_db ''kody@kcd.dev'') ''u1''"
    by (simp add: sample_defs min_max_def taken_by_other_def findUnique_username_def
        findUnique_email_def)
  have a: "map_of [(''name'', ''Kody'')] ''username'' = None \<or>
           map_of [(''name'', ''Kody'')] ''email'' = None"
    by simp
  show ?thesis
    using h a
      profile_schema_required_and_optional_fields
        [of sample_env "[(''name'', ''Kody'')]" sample_db "''u1''" "''submit''"
            "''kody''" "''kody@kcd.dev''"]
    by simp
qed

section \<open>A valid submission\<close>

lemma parse_value_Some:
  assumes "sub_value (fst (parse en d i it p)) = Some v"
  shows "map_of p ''username'' = Some (form_username v) \<and>
         map_of p ''email'' = Some (form_email v) \<and>
         form_name v = map_of p ''name'' \<and>
         form_currentPassword v = map_of p ''currentPassword'' \<and>
         form_newPassword v = map_of p ''newPassword'' \<and>
         fst (ProfileFormSchema en p) = Valid \<and>
         fst (superRefine en d i v) = []"
proof (cases "map_of p ''username''")
  case None
  then show ?thesis using assms by (simp add: parse_absent)
next
  case (Some n)
  note n = this
  show ?thesis
  proof (cases "map_of p ''email''")
    case None
    then show ?thesis using assms by (simp add: parse_absent)
  next
    case (Some e)
    show ?thesis
      using assms n Some parse_present [OF n Some, of en d i it]
      by (auto simp: Let_def ProfileFormSchema_issues split: if_splits)
  qed
qed

lemma find_unique_key:
  assumes "distinct (map f d)" and "x \<in> set d" and "f x = k"
  shows "find (\<lambda>u. f u = k) d = Some x"
  using assms
proof (induction d)
  case Nil
  then show ?case by simp
next
  case (Cons a d)
  then show ?case by (cases "a = x") auto
qed

lemma not_taken_no_conflict:
  assumes "distinct (map f d)" and "\<not> taken_by_other (find (\<lambda>u. f u = k) d) i"
  shows "\<not> list_ex (\<lambda>x. id_user x \<noteq> i \<and> f x = k) d"
proof
  assume "list_ex (\<lambda>x. id_user x \<noteq> i \<and> f x = k) d"
  then obtain x where x: "x \<in> set d" "id_user x \<noteq> i" "f x = k"
    by (auto simp: list_ex_iff)
  then have "find (\<lambda>u. f u = k) d = Some x"
    using assms(1) by (simp add: find_unique_key)
  then show False
    using assms(2) x(2) by (simp add: taken_by_other_def)
qed

lemma verify_has_hash:
  assumes "verifyUserPassword en d i cp \<noteq> None" and "findUnique_id d i = Some u"
  shows "password_hash u \<noteq> None"
  using assms by (auto simp: verifyUserPassword_def split: option.splits)

lemma action_valid_submit:
  assumes uc: "unique_columns d"
    and s: "session req = Some i"
    and it: "intent req = ''submit''"
    and v: "sub_value (fst (parse en d i (intent req) (payload req))) = Some v"
    and u: "findUnique_id d i = Some u"
  shows "fst (action en d req) = Inr (Redirect 302 (''/users/'' @ form_username v)) \<and>
         fst (snd (action en d req)) =
           map (\<lambda>x. if id_user x = i then updated_user en u v else x) d"
proof -
  let ?hashed = "case form_newPassword v of
                   None \<Rightarrow> None
                 | Some np \<Rightarrow> if np \<noteq> [] then Some (getPasswordHash en np) else None"
  let ?dat = "\<lparr> data_name = form_name v, data_username = form_username v,
                data_email = form_email v, data_password_hash = ?hashed \<rparr>"
  have pv: "fst (superRefine en d i v) = []"
    using parse_value_Some [OF v] by simp
  then have r: "\<not> taken_by_other (findUnique_username d (form_username v)) i"
      "\<not> taken_by_other (findUnique_email d (form_email v)) i"
      "\<not> (truthy (form_newPassword v) \<and> \<not> truthy (form_currentPassword v))"
      "case form_currentPassword v of
         None \<Rightarrow> True
       | Some cp \<Rightarrow> cp \<noteq> [] \<and> truthy (form_newPassword v) \<longrightarrow>
                    verifyUserPassword en d i cp \<noteq> None"
    by (simp_all add: superRefine_issues_Nil)
  have c1: "\<not> list_ex (\<lambda>x. id_user x \<noteq> i \<and> username x = form_username v) d"
    using uc r(1) not_taken_no_conflict [of username d "form_username v" i]
    by (simp add: unique_columns_def findUnique_username_def)
  have c2: "\<not> list_ex (\<lambda>x. id_user x \<noteq> i \<and> email x = form_email v) d"
    using uc r(2) not_taken_no_conflict [of email d "form_email v" i]
    by (simp add: unique_columns_def findUnique_email_def)
  have c: "\<not> list_ex (\<lambda>x. id_user x \<noteq> i \<and>
              (username x = form_username v \<or> email x = form_email v)) d"
    using c1 c2 by (auto simp: list_ex_iff)
  have h: "?hashed \<noteq> None \<Longrightarrow> password_hash u \<noteq> None"
  proof -
    assume "?hashed \<noteq> None"
    then have np: "truthy (form_newPassword v)"
      by (auto simp: truthy_def split: option.splits if_splits)
    then have "truthy (form_currentPassword v)"
      using r(3) by simp
    then obtain cp where cp: "form_currentPassword v = Some cp" "cp \<noteq> []"
      by (auto simp: truthy_def split: option.splits)
    then have "verifyUserPassword en d i cp \<noteq> None"
      using r(4) np by simp
    then show ?thesis
      using u by (rule verify_has_hash)
  qed
  have upd: "user_update d i ?dat =
               Inr (map (\<lambda>x. if id_user x = i then updated_user en u v else x) d,
                    updated_user en u v)"
    using u c h
    by (auto simp: user_update_def updated_user_def Let_def split: option.splits)
  show ?thesis
    using s it v upd
    by (simp add: action_def requireUserId_def Let_def updated_user_def
        parse_intent parse_payload)
qed


lemma findUnique_id_is_id: "findUnique_id d i = Some u \<Longrightarrow> id_user u = i \<and> u \<in> set d"
  by (auto simp: findUnique_id_def find_Some_iff)

lemma findUnique_id_map:
  assumes "findUnique_id d i = Some u" and "id_user u' = i"
  shows "findUnique_id (map (\<lambda>x. if id_user x = i then u' else x) d) i = Some u'"
  using assms unfolding findUnique_id_def
  by (induction d) (auto split: if_splits)





section \<open>The stored password hash\<close>



section \<open>Outcomes and traces of the action\<close>

lemma superRefine_trace:
  "snd (superRefine en d i v) =
     [FindUniqueUsername (form_username v), FindUniqueEmail (form_email v)] @
     (case form_currentPassword v of
        None \<Rightarrow> []
      | Some cp \<Rightarrow> if cp \<noteq> [] \<and> truthy (form_newPassword v)
                   then [VerifyUserPassword i cp] else [])"
  by (simp add: superRefine_def Let_def split: option.splits)

lemma parse_present_parts:
  assumes "map_of p ''username'' = Some n" and "map_of p ''email'' = Some e"
  shows "sub_error (fst (parse en d i it p)) =
           fst (snd (ProfileFormSchema en p)) @
           fst (superRefine en d i
                  \<lparr> form_name = map_of p ''name'', form_username = n,
                    form_currentPassword = map_of p ''currentPassword'',
                    form_newPassword = map_of p ''newPassword'', form_email = e \<rparr>)"
    and "snd (parse en d i it p) =
           [FindUniqueUsername n, FindUniqueEmail e] @
           (case map_of p ''currentPassword'' of
              None \<Rightarrow> []
            | Some cp \<Rightarrow> if cp \<noteq> [] \<and> truthy (map_of p ''newPassword'')
                         then [VerifyUserPassword i cp] else [])"
    and "sub_value (fst (parse en d i it p)) = None \<longleftrightarrow>
           sub_error (fst (parse en d i it p)) \<noteq> []"
  using parse_present [OF assms, of en d i it]
  by (simp_all add: Let_def superRefine_trace split: option.splits)

lemma action_invalid:
  assumes "session req = Some i"
    and "sub_value (fst (parse en d i (intent req) (payload req))) = None"
  shows "fst (action en d req) =
           Inr (if intent req = ''submit''
                then Json 400 (ActionData ''error''
                       ((fst (parse en d i (intent req) (payload req)))
                          \<lparr> sub_payload := delete_key ''newPassword''
                               (delete_key ''currentPassword'' (payload req)) \<rparr>))
                else Json 200 (ActionData ''idle''
                       ((fst (parse en d i (intent req) (payload req)))
                          \<lparr> sub_payload := delete_key ''newPassword''
                               (delete_key ''currentPassword'' (payload req)) \<rparr>)))"
    and "fst (snd (action en d req)) = d"
    and "snd (snd (action en d req)) =
           [ReadFormData, ParseSubmission] @ snd (parse en d i (intent req) (payload req))"
proof -
  let ?s = "fst (parse en d i (intent req) (payload req))"
  have eq: "?s\<lparr> sub_payload := q, sub_value := None \<rparr> = ?s\<lparr> sub_payload := q \<rparr>" for q
    using assms(2) by (cases ?s) simp
  show "fst (action en d req) =
           Inr (if intent req = ''submit''
                then Json 400 (ActionData ''error''
                       ((fst (parse en d i (intent req) (payload req)))
                          \<lparr> sub_payload := delete_key ''newPassword''
                               (delete_key ''currentPassword'' (payload req)) \<rparr>))
                else Json 200 (ActionData ''idle''
                       ((fst (parse en d i (intent req) (payload req)))
                          \<lparr> sub_payload := delete_key ''newPassword''
                               (delete_key ''currentPassword'' (payload req)) \<rparr>)))"
  proof (cases "intent req = ''submit''")
    case True
    then show ?thesis
      using assms
      by (simp add: action_def requireUserId_def Let_def parse_intent parse_payload)
  next
    case False
    then show ?thesis
      using assms eq
      by (simp add: action_def requireUserId_def Let_def parse_intent parse_payload)
  qed
  show "fst (snd (action en d req)) = d"
    using assms
    by (cases "intent req = ''submit''")
      (simp_all add: action_def requireUserId_def Let_def parse_intent parse_payload)
  show "snd (snd (action en d req)) =
           [ReadFormData, ParseSubmission] @ snd (parse en d i (intent req) (payload req))"
    using assms
    by (cases "intent req = ''submit''")
      (simp_all add: action_def requireUserId_def Let_def parse_intent parse_payload)
qed

lemma action_idle:
  assumes "session req = Some i" and "intent req \<noteq> ''submit''"
  shows "fst (action en d req) =
           Inr (Json 200 (ActionData ''idle''
             ((fst (parse en d i (intent req) (payload req)))
                \<lparr> sub_payload := delete_key ''newPassword''
                     (delete_key ''currentPassword'' (payload req)),
                  sub_value := map_option delete_passwords
                     (sub_value (fst (parse en d i (intent req) (payload req)))) \<rparr>)))"
    and "fst (snd (action en d req)) = d"
    and "snd (snd (action en d req)) =
           [ReadFormData, ParseSubmission] @ snd (parse en d i (intent req) (payload req))"
  using assms
  by (simp_all add: action_def requireUserId_def Let_def parse_intent parse_payload)

lemma action_update_attempt:
  assumes "session req = Some i" and "intent req = ''submit''"
    and "sub_value (fst (parse en d i (intent req) (payload req))) = Some v"
  shows "snd (snd (action en d req)) =
           [ReadFormData, ParseSubmission] @ snd (parse en d i (intent req) (payload req)) @
           (case form_newPassword v of
              None \<Rightarrow> []
            | Some np \<Rightarrow> if np \<noteq> [] then [GetPasswordHash np] else []) @
           [UserUpdate i]"
    and "fst (action en d req) = Inr (Redirect 302 (''/users/'' @ form_username v)) \<or>
         (\<exists>err. fst (action en d req) = Inl (PrismaError err) \<and>
                fst (snd (action en d req)) = d)"
proof -
  let ?hashed = "case form_newPassword v of
                   None \<Rightarrow> None
                 | Some np \<Rightarrow> if np \<noteq> [] then Some (getPasswordHash en np) else None"
  let ?dat = "\<lparr> data_name = form_name v, data_username = form_username v,
                data_email = form_email v, data_password_hash = ?hashed \<rparr>"
  show "snd (snd (action en d req)) =
           [ReadFormData, ParseSubmission] @ snd (parse en d i (intent req) (payload req)) @
           (case form_newPassword v of
              None \<Rightarrow> []
            | Some np \<Rightarrow> if np \<noteq> [] then [GetPasswordHash np] else []) @
           [UserUpdate i]"
    using assms
    by (cases "user_update d i ?dat")
      (auto simp: action_def requireUserId_def Let_def parse_intent parse_payload)
  show "fst (action en d req) = Inr (Redirect 302 (''/users/'' @ form_username v)) \<or>
         (\<exists>err. fst (action en d req) = Inl (PrismaError err) \<and>
                fst (snd (action en d req)) = d)"
  proof (cases "user_update d i ?dat")
    case (Inl err)
    then show ?thesis
      using assms
      by (simp add: action_def requireUserId_def Let_def parse_intent parse_payload)
  next
    case (Inr r)
    then have "username (snd r) = form_username v"
      by (auto simp: user_update_def Let_def split: option.splits if_splits)
    then show ?thesis
      using assms Inr
      by (cases r)
        (simp add: action_def requireUserId_def Let_def parse_intent parse_payload)
  qed
qed


lemma taken_if_other_has:
  assumes "distinct (map f d)" and "list_ex (\<lambda>x. id_user x \<noteq> i \<and> f x = k) d"
  shows "taken_by_other (find (\<lambda>u. f u = k) d) i"
proof -
  obtain x where x: "x \<in> set d" "id_user x \<noteq> i" "f x = k"
    using assms(2) by (auto simp: list_ex_iff)
  then have "find (\<lambda>u. f u = k) d = Some x"
    using assms(1) by (simp add: find_unique_key)
  then show ?thesis
    using x(2) by (simp add: taken_by_other_def)
qed

lemma superRefine_messages:
  "taken_by_other (findUnique_username d (form_username v)) i \<Longrightarrow>
     (''username'', Custom ''A user already exists with this username'')
       \<in> set (fst (superRefine en d i v))"
  "taken_by_other (findUnique_email d (form_email v)) i \<Longrightarrow>
     (''email'', Custom ''A user already exists with this email'')
       \<in> set (fst (superRefine en d i v))"
  "truthy (form_newPassword v) \<Longrightarrow> \<not> truthy (form_currentPassword v) \<Longrightarrow>
     (''newPassword'', Custom ''Must provide current password to change password.'')
       \<in> set (fst (superRefine en d i v))"
  "form_currentPassword v = Some cp \<Longrightarrow> cp \<noteq> [] \<Longrightarrow> truthy (form_newPassword v) \<Longrightarrow>
   verifyUserPassword en d i cp = None \<Longrightarrow>
     (''currentPassword'', Custom ''Incorrect password.'')
       \<in> set (fst (superRefine en d i v))"
  by (simp_all add: superRefine_def Let_def)

lemma parse_trace_no_update: "filter is_update (snd (parse en d i it p)) = []"
proof (cases "map_of p ''username'' = None \<or> map_of p ''email'' = None")
  case True
  then show ?thesis by (simp add: parse_absent)
next
  case False
  then obtain n e where "map_of p ''username'' = Some n" "map_of p ''email'' = Some e"
    by auto
  then show ?thesis
    using parse_present_parts(2) [of p n e en d i it]
    by (simp add: is_update_def split: option.splits)
qed

lemma action_invalid_no_update:
  assumes "session req = Some i"
    and "sub_value (fst (parse en d i (intent req) (payload req))) = None"
  shows "filter is_update (snd (snd (action en d req))) = []"
  using action_invalid(3) [OF assms] parse_trace_no_update [of en d i "intent req" "payload req"]
  by (simp add: is_update_def)

section \<open>Lookups made by the action\<close>

text \<open>
  Claim C1, as stated, asks every POST to make two uniqueness lookups and one
  password-verification lookup. The action verifies the password only under the guard
  \<open>currentPassword && newPassword\<close>: a valid submission without password fields makes
  the two uniqueness lookups, no verification, and is redirected. A submission without
  an email makes no lookup at all, and neither does a request without a session.
\<close>

theorem every_post_verifies_password_counterexample:
  "snd (snd (action sample_env sample_db
          \<lparr> session = Some ''u1'', intent = ''submit'',
            payload = [(''username'', ''kody2''), (''email'', ''kody@kcd.dev'')] \<rparr>))
     = [ReadFormData, ParseSubmission, FindUniqueUsername ''kody2'',
        FindUniqueEmail ''kody@kcd.dev'', UserUpdate ''u1''] \<and>
   fst (action sample_env sample_db
          \<lparr> session = Some ''u1'', intent = ''submit'',
            payload = [(''username'', ''kody2''), (''email'', ''kody@kcd.dev'')] \<rparr>)
     = Inr (Redirect 302 ''/users/kody2'') \<and>
   length (filter is_verification (snd (snd (action sample_env sample_db
          \<lparr> session = Some ''u1'', intent = ''submit'',
            payload = [(''username'', ''kody2''), (''email'', ''kody@kcd.dev'')] \<rparr>))))
     \<noteq> 1 \<and>
   action sample_env sample_db
          \<lparr> session = Some ''u1'', intent = ''submit'',
            payload = [(''username'', ''kody2'')] \<rparr>
     = (Inr (Json 400 (ActionData ''error''
          \<lparr> sub_intent = ''submit'', sub_payload = [(''username'', ''kody2'')],
            sub_error = [(''email'', Required)], sub_value = None \<rparr>)),
        sample_db, [ReadFormData, ParseSubmission]) \<and>
   action sample_env sample_db
          \<lparr> session = None, intent = ''submit'',
            payload = [(''username'', ''kody2''), (''email'', ''kody@kcd.dev'')] \<rparr>
     = (Inl LoginRedirect, sample_db, [])"
  by (simp add: model_defs sample_defs Let_def is_verification_def)

text \<open>
  Claim C1, amended. For every authenticated POST whose fields are each posted once and
  whose username and email are present and non-empty (and whose name, if posted, is
  non-empty), the action validates the payload and makes exactly two uniqueness lookups,
  by username and then by email, right after reading and parsing the form; it makes one
  password-verification lookup exactly when \<open>currentPassword\<close> and \<open>newPassword\<close> are
  both non-empty, and none otherwise. Then: with an intent other than \<open>submit\<close> it
  returns the idle response and updates nothing; with intent \<open>submit\<close> and failed
  validation it returns status 400 with the validation errors and updates nothing; with
  intent \<open>submit\<close> and passed validation, the session user's record being in a store
  with unique columns, it ends with the one update of that record, which then carries
  the submitted username and email, and redirects with status 302 to \<open>/users/\<close>
  followed by the submitted username.
\<close>

theorem action_lookups_and_outcome:
  assumes "session req = Some i"
    and "distinct (map fst (payload req))"
    and "map_of (payload req) ''username'' = Some n" and "n \<noteq> []"
    and "map_of (payload req) ''email'' = Some e" and "e \<noteq> []"
    and "map_of (payload req) ''name'' \<noteq> Some []"
  shows "filter is_uniqueness_lookup (snd (snd (action en d req))) =
           [FindUniqueUsername n, FindUniqueEmail e] \<and>
         filter is_verification (snd (snd (action en d req))) =
           (case map_of (payload req) ''currentPassword'' of
              None \<Rightarrow> []
            | Some cp \<Rightarrow> if cp \<noteq> [] \<and> truthy (map_of (payload req) ''newPassword'')
                         then [VerifyUserPassword i cp] else []) \<and>
         take 4 (snd (snd (action en d req))) =
           [ReadFormData, ParseSubmission, FindUniqueUsername n, FindUniqueEmail e] \<and>
         (intent req \<noteq> ''submit'' \<longrightarrow>
            filter is_update (snd (snd (action en d req))) = [] \<and>
            fst (snd (action en d req)) = d \<and>
            (\<exists>sub. fst (action en d req) = Inr (Json 200 (ActionData ''idle'' sub)))) \<and>
         (intent req = ''submit'' \<and>
          sub_value (fst (parse en d i (intent req) (payload req))) = None \<longrightarrow>
            filter is_update (snd (snd (action en d req))) = [] \<and>
            fst (snd (action en d req)) = d \<and>
            (\<exists>sub. fst (action en d req) = Inr (Json 400 (ActionData ''error'' sub)) \<and>
                   sub_error sub \<noteq> [])) \<and>
         (intent req = ''submit'' \<and>
          sub_value (fst (parse en d i (intent req) (payload req))) \<noteq> None \<and>
          unique_columns d \<and> findUnique_id d i \<noteq> None \<longrightarrow>
            filter is_update (snd (snd (action en d req))) = [UserUpdate i] \<and>
            last (snd (snd (action en d req))) = UserUpdate i \<and>
            fst (action en d req) = Inr (Redirect 302 (''/users/'' @ n)) \<and>
            map_option username (findUnique_id (fst (snd (action en d req))) i) = Some n \<and>
            map_option email (findUnique_id (fst (snd (action en d req))) i) = Some e)"
proof -
  let ?p = "payload req"
  let ?V = "case map_of ?p ''currentPassword'' of
              None \<Rightarrow> []
            | Some cp \<Rightarrow> if cp \<noteq> [] \<and> truthy (map_of ?p ''newPassword'')
                         then [VerifyUserPassword i cp] else []"
  let ?tr = "snd (snd (action en d req))"
  let ?parse = "parse en d i (intent req) ?p"
  note s = assms(1) and un = assms(3) and em = assms(5)
  have P: "snd ?parse = [FindUniqueUsername n, FindUniqueEmail e] @ ?V"
    using parse_present_parts(2) [OF un em] by simp
  have V: "filter is_uniqueness_lookup ?V = []" "filter is_verification ?V = ?V"
      "filter is_update ?V = []"
    by (simp_all add: is_uniqueness_lookup_def is_verification_def is_update_def
        split: option.splits)
  have H: "filter is_uniqueness_lookup
             (case w of None \<Rightarrow> []
              | Some np \<Rightarrow> if np \<noteq> [] then [GetPasswordHash np] else []) = []"
      "filter is_verification
             (case w of None \<Rightarrow> []
              | Some np \<Rightarrow> if np \<noteq> [] then [GetPasswordHash np] else []) = []"
      "filter is_update
             (case w of None \<Rightarrow> []
              | Some np \<Rightarrow> if np \<noteq> [] then [GetPasswordHash np] else []) = []" for w
    by (simp_all add: is_uniqueness_lookup_def is_verification_def is_update_def
        split: option.splits)
  have K: "is_uniqueness_lookup (FindUniqueUsername n)" "is_uniqueness_lookup (FindUniqueEmail e)"
      "\<not> is_uniqueness_lookup ReadFormData" "\<not> is_uniqueness_lookup ParseSubmission"
      "\<not> is_uniqueness_lookup (UserUpdate i)"
      "\<not> is_verification (FindUniqueUsername n)" "\<not> is_verification (FindUniqueEmail e)"
      "\<not> is_verification ReadFormData" "\<not> is_verification ParseSubmission"
      "\<not> is_verification (UserUpdate i)"
      "\<not> is_update (FindUniqueUsername n)" "\<not> is_update (FindUniqueEmail e)"
      "\<not> is_update ReadFormData" "\<not> is_update ParseSubmission"
      "is_update (UserUpdate i)"
    by (simp_all add: is_uniqueness_lookup_def is_verification_def is_update_def)
  consider (idle) "intent req \<noteq> ''submit''"
    | (invalid) "intent req = ''submit''" "sub_value (fst ?parse) = None"
    | (valid) v where "intent req = ''submit''" "sub_value (fst ?parse) = Some v"
    by (cases "sub_value (fst ?parse)") auto
  then show ?thesis
  proof cases
    case idle
    have tr: "?tr = [ReadFormData, ParseSubmission, FindUniqueUsername n, FindUniqueEmail e] @ ?V"
      using action_idle(3) [OF s idle, of en d] P by simp
    have f: "filter is_uniqueness_lookup ?tr = [FindUniqueUsername n, FindUniqueEmail e]"
        "filter is_verification ?tr = ?V" "filter is_update ?tr = []"
        "take 4 ?tr = [ReadFormData, ParseSubmission, FindUniqueUsername n, FindUniqueEmail e]"
      unfolding tr using V K by simp_all
    show ?thesis
      using f idle action_idle(1,2) [OF s idle, of en d] by simp
  next
    case invalid
    have tr: "?tr = [ReadFormData, ParseSubmission, FindUniqueUsername n, FindUniqueEmail e] @ ?V"
      using action_invalid(3) [OF s invalid(2)] P by simp
    have f: "filter is_uniqueness_lookup ?tr = [FindUniqueUsername n, FindUniqueEmail e]"
        "filter is_verification ?tr = ?V" "filter is_update ?tr = []"
        "take 4 ?tr = [ReadFormData, ParseSubmission, FindUniqueUsername n, FindUniqueEmail e]"
      unfolding tr using V K by simp_all
    have er: "sub_error (fst ?parse) \<noteq> []"
      using parse_present_parts(3) [OF un em, of en d i "intent req"] invalid(2) by simp
    have "fst (action en d req) =
            Inr (Json 400 (ActionData ''error''
              ((fst ?parse)\<lparr> sub_payload := delete_key ''newPassword''
                                 (delete_key ''currentPassword'' ?p) \<rparr>)))"
      using action_invalid(1) [OF s invalid(2)] invalid(1) by simp
    then have "\<exists>sub. fst (action en d req) = Inr (Json 400 (ActionData ''error'' sub)) \<and>
                 sub_error sub \<noteq> []"
      using er by simp
    then show ?thesis
      using f invalid action_invalid(2) [OF s invalid(2)] by simp
  next
    case valid
    let ?H = "case form_newPassword v of
                None \<Rightarrow> []
              | Some np \<Rightarrow> if np \<noteq> [] then [GetPasswordHash np] else []"
    have tr: "?tr = [ReadFormData, ParseSubmission, FindUniqueUsername n, FindUniqueEmail e]
                @ ?V @ ?H @ [UserUpdate i]"
      using action_update_attempt(1) [OF s valid] P by simp
    have f: "filter is_uniqueness_lookup ?tr = [FindUniqueUsername n, FindUniqueEmail e]"
        "filter is_verification ?tr = ?V" "filter is_update ?tr = [UserUpdate i]"
        "take 4 ?tr = [ReadFormData, ParseSubmission, FindUniqueUsername n, FindUniqueEmail e]"
        "last ?tr = UserUpdate i"
      unfolding tr using V K H [of "form_newPassword v"] by simp_all
    have pv: "form_username v = n" "form_email v = e"
      using parse_value_Some [OF valid(2)] un em by simp_all
    have red: "fst (action en d req) = Inr (Redirect 302 (''/users/'' @ n)) \<and>
               map_option username (findUnique_id (fst (snd (action en d req))) i) = Some n \<and>
               map_option email (findUnique_id (fst (snd (action en d req))) i) = Some e"
      if uc: "unique_columns d" and row: "findUnique_id d i \<noteq> None"
    proof -
      obtain u where u: "findUnique_id d i = Some u"
        using row by auto
      have a: "fst (action en d req) = Inr (Redirect 302 (''/users/'' @ form_username v))"
          "fst (snd (action en d req)) =
             map (\<lambda>x. if id_user x = i then updated_user en u v else x) d"
        using action_valid_submit [OF uc s valid(1) valid(2) u] by simp_all
      have "id_user (updated_user en u v) = i"
        using findUnique_id_is_id [OF u] by (simp add: updated_user_def)
      then have "findUnique_id (fst (snd (action en d req))) i = Some (updated_user en u v)"
        using a(2) findUnique_id_map [OF u] by simp
      then show ?thesis
        using a(1) pv by (simp add: updated_user_def)
    qed
    show ?thesis
      using f valid red by simp
  qed
qed

theorem action_lookups_and_outcome_witness:
  "unique_columns sample_db \<and> findUnique_id sample_db ''u1'' \<noteq> None \<and>
   distinct (map fst [(''username'', ''kody''), (''email'', ''k@x''),
                      (''currentPassword'', ''kodylovesyou''),
                      (''newPassword'', ''abcdefg'')]) \<and>
   sub_value (fst (parse sample_env sample_db ''u1'' ''submit''
                [(''username'', ''kody''), (''email'', ''k@x''),
                 (''currentPassword'', ''kodylovesyou''),
                 (''newPassword'', ''abcdefg'')])) \<noteq> None \<and>
   filter is_uniqueness_lookup (snd (snd (action sample_env sample_db
          \<lparr> session = Some ''u1'', intent = ''submit'',
            payload = [(''username'', ''kody''), (''email'', ''k@x''),
                       (''currentPassword'', ''kodylovesyou''),
                       (''newPassword'', ''abcdefg'')] \<rparr>)))
     = [FindUniqueUsername ''kody'', FindUniqueEmail ''k@x''] \<and>
   filter is_verification (snd (snd (action sample_env sample_db
          \<lparr> session = Some ''u1'', intent = ''submit'',
            payload = [(''username'', ''kody''), (''email'', ''k@x''),
                       (''currentPassword'', ''kodylovesyou''),
                       (''newPassword'', ''abcdefg'')] \<rparr>)))
     = [VerifyUserPassword ''u1'' ''kodylovesyou''] \<and>
   filter is_update (snd (snd (action sample_env sample_db
          \<lparr> session = Some ''u1'', intent = ''submit'',
            payload = [(''username'', ''kody''), (''email'', ''k@x''),
                       (''currentPassword'', ''kodylovesyou''),
                       (''newPassword'', ''abcdefg'')] \<rparr>)))
     = [UserUpdate ''u1''] \<and>
   fst (action sample_env sample_db
          \<lparr> session = Some ''u1'', intent = ''submit'',
            payload = [(''username'', ''kody''), (''email'', ''k@x''),
                       (''currentPassword'', ''kodylovesyou''),
                       (''newPassword'', ''abcdefg'')] \<rparr>)
     = Inr (Redirect 302 ''/users/kody'') \<and>
   sub_value (fst (parse sample_env sample_db ''u1'' ''submit''
                [(''username'', ''hannah''), (''email'', ''kody@kcd.dev'')])) = None \<and>
   filter is_update (snd (snd (action sample_env sample_db
          \<lparr> session = Some ''u1'', intent = ''submit'',
            payload = [(''username'', ''hannah''), (''email'', ''kody@kcd.dev'')] \<rparr>)))
     = [] \<and>
   fst (snd (action sample_env sample_db
          \<lparr> session = Some ''u1'', intent = ''submit'',
            payload = [(''username'', ''hannah''), (''email'', ''kody@kcd.dev'')] \<rparr>))
     = sample_db \<and>
   filter is_update (snd (snd (action sample_env sample_db
          \<lparr> session = Some ''u1'', intent = ''validate/username'',
            payload = [(''username'', ''kody''), (''email'', ''k@x'')] \<rparr>)))
     = [] \<and>
   fst (snd (action sample_env sample_db
          \<lparr> session = Some ''u1'', intent = ''validate/username'',
            payload = [(''username'', ''kody''), (''email'', ''k@x'')] \<rparr>))
     = sample_db"
proof -
  let ?reqV = "\<lparr> session = Some ''u1'', intent = ''submit'',
                 payload = [(''username'', ''kody''), (''email'', ''k@x''),
                            (''currentPassword'', ''kodylovesyou''),
                            (''newPassword'', ''abcdefg'')] \<rparr>"
  let ?reqI = "\<lparr> session = Some ''u1'', intent = ''submit'',
                 payload = [(''username'', ''hannah''), (''email'', ''kody@kcd.dev'')] \<rparr>"
  let ?reqN = "\<lparr> session = Some ''u1'', intent = ''validate/username'',
                 payload = [(''username'', ''kody''), (''email'', ''k@x'')] \<rparr>"
  have uc: "unique_columns sample_db"
    by (simp add: unique_columns_def sample_defs)
  have row: "findUnique_id sample_db ''u1'' \<noteq> None"
    by (simp add: findUnique_id_def sample_defs)
  have v: "sub_value (fst (parse sample_env sample_db ''u1'' (intent ?reqV) (payload ?reqV)))
             \<noteq> None"
    by (simp add: model_defs sample_defs Let_def)
  have i: "sub_value (fst (parse sample_env sample_db ''u1'' (intent ?reqI) (payload ?reqI)))
             = None"
    by (simp add: model_defs sample_defs Let_def)
  have V: "filter is_uniqueness_lookup (snd (snd (action sample_env sample_db ?reqV)))
             = [FindUniqueUsername ''kody'', FindUniqueEmail ''k@x''] \<and>
           filter is_verification (snd (snd (action sample_env sample_db ?reqV)))
             = [VerifyUserPassword ''u1'' ''kodylovesyou''] \<and>
           filter is_update (snd (snd (action sample_env sample_db ?reqV)))
             = [UserUpdate ''u1''] \<and>
           fst (action sample_env sample_db ?reqV) = Inr (Redirect 302 ''/users/kody'')"
    using action_lookups_and_outcome
            [where req = ?reqV and i = "''u1''" and n = "''kody''" and e = "''k@x''"
               and en = sample_env and d = sample_db] v uc row
    by (simp add: truthy_def)
  have I: "filter is_update (snd (snd (action sample_env sample_db ?reqI))) = [] \<and>
           fst (snd (action sample_env sample_db ?reqI)) = sample_db"
    using action_lookups_and_outcome
            [where req = ?reqI and i = "''u1''" and n = "''hannah''" and e = "''kody@kcd.dev''"
               and en = sample_env and d = sample_db] i
    by simp
  have N: "filter is_update (snd (snd (action sample_env sample_db ?reqN))) = [] \<and>
           fst (snd (action sample_env sample_db ?reqN)) = sample_db"
    using action_lookups_and_outcome
            [where req = ?reqN and i = "''u1''" and n = "''kody''" and e = "''k@x''"
               and en = sample_env and d = sample_db]
    by simp
  have v': "sub_value (fst (parse sample_env sample_db ''u1'' ''submit''
                [(''username'', ''kody''), (''email'', ''k@x''),
                 (''currentPassword'', ''kodylovesyou''),
                 (''newPassword'', ''abcdefg'')])) \<noteq> None"
    using v by simp
  show ?thesis
    using V I N i v' uc row by simp
qed

section \<open>Uniqueness errors\<close>

text \<open>
  Claim C3, as stated, covers every \<open>submit\<close> submission. When the email is missing the
  schema aborts before the refinement, so a username held by another user gets no
  message of its own (the response is still a 400, with the error on \<open>email\<close>); and
  without a session the action throws the login redirect instead of answering 400.
\<close>

theorem uniqueness_error_for_every_submission_counterexample:
  "list_ex (\<lambda>x. id_user x \<noteq> ''u1'' \<and> username x = ''hannah'') sample_db \<and>
   action sample_env sample_db
          \<lparr> session = Some ''u1'', intent = ''submit'',
            payload = [(''username'', ''hannah'')] \<rparr>
     = (Inr (Json 400 (ActionData ''error''
          \<lparr> sub_intent = ''submit'', sub_payload = [(''username'', ''hannah'')],
            sub_error = [(''email'', Required)], sub_value = None \<rparr>)),
        sample_db, [ReadFormData, ParseSubmission]) \<and>
   (''username'', Custom ''A user already exists with this username'')
      \<notin> set [(''email'', Required)] \<and>
   action sample_env sample_db
          \<lparr> session = None, intent = ''submit'',
            payload = [(''username'', ''hannah''), (''email'', ''kody@kcd.dev'')] \<rparr>
     = (Inl LoginRedirect, sample_db, [])"
  by (simp add: model_defs sample_defs Let_def)

text \<open>
  Claim C3, amended. For every authenticated \<open>submit\<close> submission whose fields are each
  posted once and whose username and email are present and non-empty: if a User record
  with a different id has the submitted username, the action returns the error response
  with status 400 whose submission carries \<open>A user already exists with this username\<close>
  on \<open>username\<close>; if one has the submitted email, the response carries
  \<open>A user already exists with this email\<close> on \<open>email\<close>; in either case the store is
  left as it is and no update is performed.
\<close>

theorem uniqueness_errors_when_username_and_email_supplied:
  assumes "unique_columns d"
    and "session req = Some i"
    and "intent req = ''submit''"
    and "distinct (map fst (payload req))"
    and "map_of (payload req) ''username'' = Some n" and "n \<noteq> []"
    and "map_of (payload req) ''email'' = Some e" and "e \<noteq> []"
  shows "(list_ex (\<lambda>x. id_user x \<noteq> i \<and> username x = n) d \<longrightarrow>
            (\<exists>sub. fst (action en d req) = Inr (Json 400 (ActionData ''error'' sub)) \<and>
                   sub_value sub = None \<and>
                   (''username'', Custom ''A user already exists with this username'')
                     \<in> set (sub_error sub))) \<and>
         (list_ex (\<lambda>x. id_user x \<noteq> i \<and> email x = e) d \<longrightarrow>
            (\<exists>sub. fst (action en d req) = Inr (Json 400 (ActionData ''error'' sub)) \<and>
                   sub_value sub = None \<and>
                   (''email'', Custom ''A user already exists with this email'')
                     \<in> set (sub_error sub))) \<and>
         (list_ex (\<lambda>x. id_user x \<noteq> i \<and> (username x = n \<or> email x = e)) d \<longrightarrow>
            fst (snd (action en d req)) = d \<and>
            filter is_update (snd (snd (action en d req))) = [])"
proof -
  let ?v = "\<lparr> form_name = map_of (payload req) ''name'', form_username = n,
              form_currentPassword = map_of (payload req) ''currentPassword'',
              form_newPassword = map_of (payload req) ''newPassword'', form_email = e \<rparr>"
  let ?parse = "parse en d i ''submit'' (payload req)"
  let ?sub = "(fst ?parse)\<lparr> sub_payload := delete_key ''newPassword''
                                   (delete_key ''currentPassword'' (payload req)) \<rparr>"
  note uc = assms(1) and s = assms(2) and it = assms(3) and un = assms(5) and em = assms(7)
  have er: "sub_error (fst ?parse) =
              fst (snd (ProfileFormSchema en (payload req))) @ fst (superRefine en d i ?v)"
    using parse_present_parts(1) [OF un em] by simp
  have res: "fst (action en d req) = Inr (Json 400 (ActionData ''error'' ?sub)) \<and>
             sub_value ?sub = None \<and>
             fst (snd (action en d req)) = d \<and>
             filter is_update (snd (snd (action en d req))) = []"
    if "m \<in> set (sub_error (fst ?parse))" for m
  proof -
    have "sub_error (fst ?parse) \<noteq> []"
      using that by auto
    then have none: "sub_value (fst (parse en d i (intent req) (payload req))) = None"
      using parse_present_parts(3) [OF un em, of en d i "''submit''"] it by simp
    show ?thesis
      using none action_invalid(1,2) [OF s none] action_invalid_no_update [OF s none] it
      by simp
  qed
  have mu: "(''username'', Custom ''A user already exists with this username'')
              \<in> set (sub_error (fst ?parse))"
    if "list_ex (\<lambda>x. id_user x \<noteq> i \<and> username x = n) d"
  proof -
    have "taken_by_other (findUnique_username d (form_username ?v)) i"
      using uc that taken_if_other_has [of username d i n]
      by (simp add: unique_columns_def findUnique_username_def)
    then show ?thesis
      using er superRefine_messages(1) [of d ?v i en] by simp
  qed
  have me: "(''email'', Custom ''A user already exists with this email'')
              \<in> set (sub_error (fst ?parse))"
    if "list_ex (\<lambda>x. id_user x \<noteq> i \<and> email x = e) d"
  proof -
    have "taken_by_other (findUnique_email d (form_email ?v)) i"
      using uc that taken_if_other_has [of email d i e]
      by (simp add: unique_columns_def findUnique_email_def)
    then show ?thesis
      using er superRefine_messages(2) [of d ?v i en] by simp
  qed
  have A: "\<exists>sub. fst (action en d req) = Inr (Json 400 (ActionData ''error'' sub)) \<and>
                 sub_value sub = None \<and>
                 (''username'', Custom ''A user already exists with this username'')
                   \<in> set (sub_error sub)"
    if h: "list_ex (\<lambda>x. id_user x \<noteq> i \<and> username x = n) d"
  proof -
    have "fst (action en d req) = Inr (Json 400 (ActionData ''error'' ?sub)) \<and>
          sub_value ?sub = None \<and>
          (''username'', Custom ''A user already exists with this username'')
            \<in> set (sub_error ?sub)"
      using res [OF mu [OF h]] mu [OF h] by simp
    then show ?thesis by blast
  qed
  have B: "\<exists>sub. fst (action en d req) = Inr (Json 400 (ActionData ''error'' sub)) \<and>
                 sub_value sub = None \<and>
                 (''email'', Custom ''A user already exists with this email'')
                   \<in> set (sub_error sub)"
    if h: "list_ex (\<lambda>x. id_user x \<noteq> i \<and> email x = e) d"
  proof -
    have "fst (action en d req) = Inr (Json 400 (ActionData ''error'' ?sub)) \<and>
          sub_value ?sub = None \<and>
          (''email'', Custom ''A user already exists with this email'')
            \<in> set (sub_error ?sub)"
      using res [OF me [OF h]] me [OF h] by simp
    then show ?thesis by blast
  qed
  have C: "fst (snd (action en d req)) = d \<and>
           filter is_update (snd (snd (action en d req))) = []"
    if "list_ex (\<lambda>x. id_user x \<noteq> i \<and> (username x = n \<or> email x = e)) d"
  proof -
    have "list_ex (\<lambda>x. id_user x \<noteq> i \<and> username x = n) d \<or>
          list_ex (\<lambda>x. id_user x \<noteq> i \<and> email x = e) d"
      using that by (auto simp: list_ex_iff)
    then show ?thesis
      using res mu me by blast
  qed
  show ?thesis
    using A B C by blast
qed

theorem uniqueness_errors_when_username_and_email_supplied_witness:
  "unique_columns sample_db \<and>
   distinct (map fst [(''username'', ''hannah''), (''email'', ''hannah@kcd.dev'')]) \<and>
   list_ex (\<lambda>x. id_user x \<noteq> ''u1'' \<and> username x = ''hannah'') sample_db \<and>
   list_ex (\<lambda>x. id_user x \<noteq> ''u1'' \<and> email x = ''hannah@kcd.dev'') sample_db \<and>
   (\<exists>sub. fst (action sample_env sample_db
                 \<lparr> session = Some ''u1'', intent = ''submit'',
                   payload = [(''username'', ''hannah''),
                              (''email'', ''hannah@kcd.dev'')] \<rparr>)
            = Inr (Json 400 (ActionData ''error'' sub)) \<and>
          sub_value sub = None \<and>
          (''username'', Custom ''A user already exists with this username'')
            \<in> set (sub_error sub)) \<and>
   (\<exists>sub. fst (action sample_env sample_db
                 \<lparr> session = Some ''u1'', intent = ''submit'',
                   payload = [(''username'', ''hannah''),
                              (''email'', ''hannah@kcd.dev'')] \<rparr>)
            = Inr (Json 400 (ActionData ''error'' sub)) \<and>
          sub_value sub = None \<and>
          (''email'', Custom ''A user already exists with this email'')
            \<in> set (sub_error sub)) \<and>
   fst (snd (action sample_env sample_db
          \<lparr> session = Some ''u1'', intent = ''submit'',
            payload = [(''username'', ''hannah''), (''email'', ''hannah@kcd.dev'')] \<rparr>))
     = sample_db \<and>
   filter is_update (snd (snd (action sample_env sample_db
          \<lparr> session = Some ''u1'', intent = ''submit'',
            payload = [(''username'', ''hannah''), (''email'', ''hannah@kcd.dev'')] \<rparr>)))
     = []"
proof -
  let ?req = "\<lparr> session = Some ''u1'', intent = ''submit'',
                payload = [(''username'', ''hannah''), (''email'', ''hannah@kcd.dev'')] \<rparr>"
  have h1: "unique_columns sample_db"
    by (simp add: unique_columns_def sample_defs)
  have h2: "list_ex (\<lambda>x. id_user x \<noteq> ''u1'' \<and> username x = ''hannah'') sample_db"
    by (simp add: sample_defs)
  have h3: "list_ex (\<lambda>x. id_user x \<noteq> ''u1'' \<and> email x = ''hannah@kcd.dev'') sample_db"
    by (simp add: sample_defs)
  have h4: "list_ex (\<lambda>x. id_user x \<noteq> ''u1'' \<and>
              (username x = ''hannah'' \<or> email x = ''hannah@kcd.dev'')) sample_db"
    by (simp add: sample_defs)
  show ?thesis
    using uniqueness_errors_when_username_and_email_supplied
            [where d = sample_db and req = ?req and i = "''u1''" and n = "''hannah''"
               and e = "''hannah@kcd.dev''" and en = sample_env]
          h1 h2 h3 h4
    by simp
qed

section \<open>The password-change pair\<close>

text \<open>
  Claim C4, as stated, covers every submission. When the email is missing the schema
  aborts before the refinement, so a new password without a current one gets no message
  on \<open>newPassword\<close>; and without a session nothing is validated at all. In both cases no
  update is performed.
\<close>

theorem password_pair_error_for_every_submission_counterexample:
  "truthy (map_of [(''username'', ''kody''), (''newPassword'', ''abcdefg'')] ''newPassword'') \<and>
   \<not> truthy (map_of [(''username'', ''kody''), (''newPassword'', ''abcdefg'')]
               ''currentPassword'') \<and>
   action sample_env sample_db
          \<lparr> session = Some ''u1'', intent = ''submit'',
            payload = [(''username'', ''kody''), (''newPassword'', ''abcdefg'')] \<rparr>
     = (Inr (Json 400 (ActionData ''error''
          \<lparr> sub_intent = ''submit'', sub_payload = [(''username'', ''kody'')],
            sub_error = [(''email'', Required)], sub_value = None \<rparr>)),
        sample_db, [ReadFormData, ParseSubmission]) \<and>
   (''newPassword'', Custom ''Must provide current password to change password.'')
      \<notin> set [(''email'', Required)] \<and>
   action sample_env sample_db
          \<lparr> session = None, intent = ''submit'',
            payload = [(''username'', ''kody''), (''email'', ''kody@kcd.dev''),
                       (''newPassword'', ''abcdefg'')] \<rparr>
     = (Inl LoginRedirect, sample_db, [])"
  by (simp add: model_defs sample_defs Let_def)

text \<open>
  Claim C4, amended. For every authenticated submission whose fields are each posted
  once and whose username and email are present and non-empty: a non-empty
  \<open>newPassword\<close> without a (non-empty) \<open>currentPassword\<close> gets the error
  \<open>Must provide current password to change password.\<close> on \<open>newPassword\<close>; a non-empty
  \<open>newPassword\<close> with a non-empty \<open>currentPassword\<close> that fails verification gets
  \<open>Incorrect password.\<close> on \<open>currentPassword\<close>. In either case the submission has no
  value, the response is the error response with status 400 (the idle response for an
  intent other than \<open>submit\<close>) and carries the message, the store is unchanged and no
  update is performed.
\<close>

theorem password_pair_errors_when_username_and_email_supplied:
  assumes "session req = Some i"
    and "distinct (map fst (payload req))"
    and "map_of (payload req) ''username'' = Some n" and "n \<noteq> []"
    and "map_of (payload req) ''email'' = Some e" and "e \<noteq> []"
  shows "(truthy (map_of (payload req) ''newPassword'') \<and>
          \<not> truthy (map_of (payload req) ''currentPassword'') \<longrightarrow>
            (\<exists>sub. fst (action en d req) =
                     Inr (if intent req = ''submit''
                          then Json 400 (ActionData ''error'' sub)
                          else Json 200 (ActionData ''idle'' sub)) \<and>
                   sub_value sub = None \<and>
                   (''newPassword'',
                    Custom ''Must provide current password to change password.'')
                     \<in> set (sub_error sub)) \<and>
            fst (snd (action en d req)) = d \<and>
            filter is_update (snd (snd (action en d req))) = []) \<and>
         (map_of (payload req) ''currentPassword'' = Some cp \<and> cp \<noteq> [] \<and>
          truthy (map_of (payload req) ''newPassword'') \<and>
          verifyUserPassword en d i cp = None \<longrightarrow>
            (\<exists>sub. fst (action en d req) =
                     Inr (if intent req = ''submit''
                          then Json 400 (ActionData ''error'' sub)
                          else Json 200 (ActionData ''idle'' sub)) \<and>
                   sub_value sub = None \<and>
                   (''currentPassword'', Custom ''Incorrect password.'')
                     \<in> set (sub_error sub)) \<and>
            fst (snd (action en d req)) = d \<and>
            filter is_update (snd (snd (action en d req))) = [])"
proof -
  let ?v = "\<lparr> form_name = map_of (payload req) ''name'', form_username = n,
              form_currentPassword = map_of (payload req) ''currentPassword'',
              form_newPassword = map_of (payload req) ''newPassword'', form_email = e \<rparr>"
  let ?parse = "parse en d i (intent req) (payload req)"
  let ?sub = "(fst ?parse)\<lparr> sub_payload := delete_key ''newPassword''
                                   (delete_key ''currentPassword'' (payload req)) \<rparr>"
  note s = assms(1) and un = assms(3) and em = assms(5)
  have er: "sub_error (fst ?parse) =
              fst (snd (ProfileFormSchema en (payload req))) @ fst (superRefine en d i ?v)"
    using parse_present_parts(1) [OF un em] by simp
  have rest: "(\<exists>sub. fst (action en d req) =
                     Inr (if intent req = ''submit''
                          then Json 400 (ActionData ''error'' sub)
                          else Json 200 (ActionData ''idle'' sub)) \<and>
                   sub_value sub = None \<and> m \<in> set (sub_error sub)) \<and>
              fst (snd (action en d req)) = d \<and>
              filter is_update (snd (snd (action en d req))) = []"
    if m: "m \<in> set (sub_error (fst ?parse))" for m
  proof -
    have "sub_error (fst ?parse) \<noteq> []"
      using m by auto
    then have none: "sub_value (fst ?parse) = None"
      using parse_present_parts(3) [OF un em, of en d i "intent req"] by simp
    have "fst (action en d req) =
            Inr (if intent req = ''submit''
                 then Json 400 (ActionData ''error'' ?sub)
                 else Json 200 (ActionData ''idle'' ?sub)) \<and>
          sub_value ?sub = None \<and> m \<in> set (sub_error ?sub)"
      using none m action_invalid(1) [OF s none] by simp
    then have "\<exists>sub. fst (action en d req) =
                     Inr (if intent req = ''submit''
                          then Json 400 (ActionData ''error'' sub)
                          else Json 200 (ActionData ''idle'' sub)) \<and>
                   sub_value sub = None \<and> m \<in> set (sub_error sub)"
      by blast
    then show ?thesis
      using action_invalid(2) [OF s none] action_invalid_no_update [OF s none] by simp
  qed
  have a: "(''newPassword'', Custom ''Must provide current password to change password.'')
             \<in> set (sub_error (fst ?parse))"
    if "truthy (map_of (payload req) ''newPassword'') \<and>
        \<not> truthy (map_of (payload req) ''currentPassword'')"
    using that er superRefine_messages(3) [where v = ?v and d = d and i = i and en = en]
    by simp
  have b: "(''currentPassword'', Custom ''Incorrect password.'')
             \<in> set (sub_error (fst ?parse))"
    if "map_of (payload req) ''currentPassword'' = Some cp \<and> cp \<noteq> [] \<and>
        truthy (map_of (payload req) ''newPassword'') \<and>
        verifyUserPassword en d i cp = None"
    using that er
      superRefine_messages(4) [where v = ?v and cp = cp and d = d and i = i and en = en]
    by simp
  show ?thesis
    using rest [OF a] rest [OF b] by blast
qed

theorem password_pair_errors_when_username_and_email_supplied_witness:
  "distinct (map fst [(''username'', ''kody''), (''email'', ''kody@kcd.dev''),
                      (''newPassword'', ''abcdefg'')]) \<and>
   truthy (map_of [(''username'', ''kody''), (''email'', ''kody@kcd.dev''),
                   (''newPassword'', ''abcdefg'')] ''newPassword'') \<and>
   \<not> truthy (map_of [(''username'', ''kody''), (''email'', ''kody@kcd.dev''),
                     (''newPassword'', ''abcdefg'')] ''currentPassword'') \<and>
   (\<exists>sub. fst (action sample_env sample_db
                 \<lparr> session = Some ''u1'', intent = ''submit'',
                   payload = [(''username'', ''kody''), (''email'', ''kody@kcd.dev''),
                              (''newPassword'', ''abcdefg'')] \<rparr>)
            = Inr (Json 400 (ActionData ''error'' sub)) \<and>
          sub_value sub = None \<and>
          (''newPassword'', Custom ''Must provide current password to change password.'')
            \<in> set (sub_error sub)) \<and>
   fst (snd (action sample_env sample_db
          \<lparr> session = Some ''u1'', intent = ''submit'',
            payload = [(''username'', ''kody''), (''email'', ''kody@kcd.dev''),
                       (''newPassword'', ''abcdefg'')] \<rparr>)) = sample_db \<and>
   distinct (map fst [(''username'', ''kody''), (''email'', ''kody@kcd.dev''),
                      (''currentPassword'', ''wrongpass''),
                      (''newPassword'', ''abcdefg'')]) \<and>
   verifyUserPassword sample_env sample_db ''u1'' ''wrongpass'' = None \<and>
   (\<exists>sub. fst (action sample_env sample_db
                 \<lparr> session = Some ''u1'', intent = ''submit'',
                   payload = [(''username'', ''kody''), (''email'', ''kody@kcd.dev''),
                              (''currentPassword'', ''wrongpass''),
                              (''newPassword'', ''abcdefg'')] \<rparr>)
            = Inr (Json 400 (ActionData ''error'' sub)) \<and>
          sub_value sub = None \<and>
          (''currentPassword'', Custom ''Incorrect password.'') \<in> set (sub_error sub)) \<and>
   fst (snd (action sample_env sample_db
          \<lparr> session = Some ''u1'', intent = ''submit'',
            payload = [(''username'', ''kody''), (''email'', ''kody@kcd.dev''),
                       (''currentPassword'', ''wrongpass''),
                       (''newPassword'', ''abcdefg'')] \<rparr>)) = sample_db \<and>
   filter is_update (snd (snd (action sample_env sample_db
          \<lparr> session = Some ''u1'', intent = ''submit'',
            payload = [(''username'', ''kody''), (''email'', ''kody@kcd.dev''),
                       (''currentPassword'', ''wrongpass''),
                       (''newPassword'', ''abcdefg'')] \<rparr>))) = []"
proof -
  let ?reqA = "\<lparr> session = Some ''u1'', intent = ''submit'',
                 payload = [(''username'', ''kody''), (''email'', ''kody@kcd.dev''),
                            (''newPassword'', ''abcdefg'')] \<rparr>"
  let ?reqB = "\<lparr> session = Some ''u1'', intent = ''submit'',
                 payload = [(''username'', ''kody''), (''email'', ''kody@kcd.dev''),
                            (''currentPassword'', ''wrongpass''),
                            (''newPassword'', ''abcdefg'')] \<rparr>"
  have hv: "verifyUserPassword sample_env sample_db ''u1'' ''wrongpass'' = None"
    by (simp add: verifyUserPassword_def findUnique_id_def sample_defs)
  have A: "(\<exists>sub. fst (action sample_env sample_db ?reqA)
                    = Inr (Json 400 (ActionData ''error'' sub)) \<and>
                  sub_value sub = None \<and>
                  (''newPassword'',
                   Custom ''Must provide current password to change password.'')
                    \<in> set (sub_error sub)) \<and>
           fst (snd (action sample_env sample_db ?reqA)) = sample_db"
    using password_pair_errors_when_username_and_email_supplied
            [where req = ?reqA and i = "''u1''" and n = "''kody''" and e = "''kody@kcd.dev''"
               and en = sample_env and d = sample_db]
    by (simp add: truthy_def)
  have B: "(\<exists>sub. fst (action sample_env sample_db ?reqB)
                    = Inr (Json 400 (ActionData ''error'' sub)) \<and>
                  sub_value sub = None \<and>
                  (''currentPassword'', Custom ''Incorrect password.'')
                    \<in> set (sub_error sub)) \<and>
           fst (snd (action sample_env sample_db ?reqB)) = sample_db \<and>
           filter is_update (snd (snd (action sample_env sample_db ?reqB))) = []"
    using password_pair_errors_when_username_and_email_supplied
            [where req = ?reqB and i = "''u1''" and n = "''kody''" and e = "''kody@kcd.dev''"
               and cp = "''wrongpass''" and en = sample_env and d = sample_db] hv
    by (simp add: truthy_def)
  show ?thesis
    using A B hv by (simp add: truthy_def)
qed

end
